theory Spec2Isabelle
  imports Main "HOL-Library.Word"
begin

section \<open>Data model\<close>

text \<open>
  Go's \<open>error\<close> values as the two tools meet them: an SDK error that satisfies
  \<open>awserr.Error\<close> (its \<open>Code()\<close> and \<open>Message()\<close>), any other error value (also what
  \<open>fmt.Errorf\<close> builds without \<open>%w\<close>), and \<open>fmt.Errorf("<prefix>: %w", err)\<close>, which
  wraps its cause. A nil error is \<open>None\<close> of \<open>error option\<close>.
\<close>

datatype error =
    AwsErr string string
  | PlainErr string
  | WrapErr string error

text \<open>The type assertion \<open>err.(awserr.Error)\<close> followed by \<open>aerr.Code()\<close>.\<close>

fun awsCode :: "error \<Rightarrow> string option" where
  "awsCode (AwsErr code msg) = Some code"
| "awsCode (PlainErr msg) = None"
| "awsCode (WrapErr prefix cause) = None"

text \<open>The error codes of the SDK that the setup tool compares with.\<close>

definition ErrCodeBucketAlreadyOwnedByYou :: string where
  "ErrCodeBucketAlreadyOwnedByYou = ''BucketAlreadyOwnedByYou''"

definition ErrCodeBucketAlreadyExists :: string where
  "ErrCodeBucketAlreadyExists = ''BucketAlreadyExists''"

definition ErrCodeEntityAlreadyExistsException :: string where
  "ErrCodeEntityAlreadyExistsException = ''EntityAlreadyExists''"

type_synonym int64 = "64 word"

text \<open>
  The SDK's replication structures, with the fields the tools read or write. Every field
  is a pointer in Go, so every field is an option here.
\<close>

record replicationRuleFilter =
  Prefix :: "string option"

record s3Destination =
  Bucket :: "string option"

record deleteMarkerReplication =
  MarkerStatus :: "string option"

record replicationRule =
  ID :: "string option"
  Status :: "string option"
  Priority :: "int64 option"
  Filter :: "replicationRuleFilter option"
  Destination :: "s3Destination option"
  DeleteMarkerReplication :: "deleteMarkerReplication option"

record replicationConfiguration =
  Role :: "string option"
  Rules :: "replicationRule list"

section \<open>The external services\<close>

text \<open>
  What a run does to the outside world: the API calls it makes, in order, and the timed
  waits between them. An S3 client is identified by the region of its session (the
  first argument of every S3 call). The JSON documents sent to IAM are left out of the
  events.
\<close>

datatype call =
    HeadBucketCall string string
  | CreateBucketCall string string "string option"
  | WaitUntilBucketExistsCall string string
  | PutBucketVersioningCall string string string
  | GetBucketReplicationCall string string
  | PutBucketReplicationCall string string replicationConfiguration
  | GetBucketLocationCall string string
  | PutObjectCall string string string
  | HeadObjectCall string string string
  | ListObjectsV2PagesCall string string
  | CreateRoleCall string
  | GetRoleCall string
  | PutRolePolicyCall string string
  | Sleep nat

text \<open>
  The services answer a call as a function of the whole history of the run, the call
  itself being the last entry: this covers every deterministic behaviour of the provider,
  also one that answers a repeated call differently.
\<close>

record aws =
  HeadBucket :: "call list \<Rightarrow> error option"
  CreateBucket :: "call list \<Rightarrow> error option"
  WaitUntilBucketExists :: "call list \<Rightarrow> error option"
  PutBucketVersioning :: "call list \<Rightarrow> error option"
  GetBucketReplication :: "call list \<Rightarrow> error + replicationConfiguration option"
  PutBucketReplication :: "call list \<Rightarrow> error option"
  GetBucketLocation :: "call list \<Rightarrow> error + string option"
  PutObject :: "call list \<Rightarrow> error option"
  HeadObject :: "call list \<Rightarrow> error option"
  ListObjectsV2Pages :: "call list \<Rightarrow> string list list \<times> error option"
  CreateRole :: "call list \<Rightarrow> error + string option"
  GetRole :: "call list \<Rightarrow> error + string option"
  PutRolePolicy :: "call list \<Rightarrow> error option"

text \<open>\<open>aws.StringValue\<close>: the empty string for a nil pointer.\<close>

fun StringValue :: "string option \<Rightarrow> string" where
  "StringValue None = []"
| "StringValue (Some s) = s"

text \<open>
  How a run of a tool ends: \<open>log.Fatalf\<close> with its message and error; the end of the setup
  tool's \<open>main\<close>; or the end of a verifier's \<open>main\<close> with what it printed: the
  destinations with their \<open>found\<close> flag, the number of source objects, and for each
  destination listed its name, the region used, its number of objects and whether it holds
  at least as many as the source.
\<close>

datatype outcome =
    Fatal string "error option"
  | Completed
  | Finished "(string \<times> bool) list" nat "(string \<times> string \<times> nat \<times> bool) list"

section \<open>The setup tool\<close>

subsection \<open>ensureBucketExists\<close>

definition ensureBucketExists ::
  "aws \<Rightarrow> string \<Rightarrow> string \<Rightarrow> string \<Rightarrow> call list \<Rightarrow> error option \<times> call list" where
  "ensureBucketExists svc s3client bucketName region lg =
     (let lg1 = lg @ [HeadBucketCall s3client bucketName] in
      case HeadBucket svc lg1 of
        None \<Rightarrow> (None, lg1)
      | Some herr \<Rightarrow>
          (let locationConstraint = (if region \<noteq> ''us-east-1'' then Some region else None);
               lg2 = lg1 @ [CreateBucketCall s3client bucketName locationConstraint] in
           case CreateBucket svc lg2 of
             Some err \<Rightarrow>
               (if awsCode err = Some ErrCodeBucketAlreadyOwnedByYou then (None, lg2)
                else if awsCode err = Some ErrCodeBucketAlreadyExists then
                  (Some (PlainErr (''bucket '' @ bucketName @
                     '' already exists and is owned by another account'')), lg2)
                else (Some err, lg2))
           | None \<Rightarrow>
               (let lg3 = lg2 @ [WaitUntilBucketExistsCall s3client bucketName] in
                case WaitUntilBucketExists svc lg3 of
                  Some werr \<Rightarrow>
                    (Some (WrapErr ''bucket creation started but wait failed'' werr), lg3)
                | None \<Rightarrow> (None, lg3))))"

subsection \<open>enableBucketVersioning\<close>

definition enableBucketVersioning ::
  "aws \<Rightarrow> string \<Rightarrow> string \<Rightarrow> call list \<Rightarrow> error option \<times> call list" where
  "enableBucketVersioning svc s3client bucketName lg =
     (let lg1 = lg @ [PutBucketVersioningCall s3client bucketName ''Enabled'']
      in (PutBucketVersioning svc lg1, lg1))"

subsection \<open>ensureReplicationRole\<close>

definition ensureReplicationRole ::
  "aws \<Rightarrow> string \<Rightarrow> string \<Rightarrow> string \<Rightarrow> string \<Rightarrow> call list \<Rightarrow> (error + string) \<times> call list" where
  "ensureReplicationRole svc roleName srcBucket dstBucket dstRegion lg =
     (let lg1 = lg @ [CreateRoleCall roleName];
          adopted =
            (case CreateRole svc lg1 of
               Inl err \<Rightarrow>
                 (if awsCode err = Some ErrCodeEntityAlreadyExistsException then
                    (let lg2 = lg1 @ [GetRoleCall roleName] in
                     case GetRole svc lg2 of
                       Inl gerr \<Rightarrow> (Inl (WrapErr ''role exists but failed to get role'' gerr), lg2)
                     | Inr arn \<Rightarrow> (Inr (StringValue arn), lg2))
                  else (Inl (WrapErr ''CreateRole error'' err), lg1))
             | Inr arn \<Rightarrow> (Inr (StringValue arn), lg1))
      in case adopted of
           (Inl e, lg2) \<Rightarrow> (Inl e, lg2)
         | (Inr roleArn, lg2) \<Rightarrow>
             (let policyName = roleName @ ''-replication-'' @ srcBucket @ ''-to-'' @ dstBucket;
                  lg3 = lg2 @ [PutRolePolicyCall roleName policyName] in
              case PutRolePolicy svc lg3 of
                Some perr \<Rightarrow> (Inl (WrapErr ''failed to put role policy'' perr), lg3)
              | None \<Rightarrow> (Inr roleArn, lg3 @ [Sleep 5])))"

subsection \<open>putReplicationConfiguration\<close>

text \<open>
  The rule the tool installs for a destination: the same literal in the update branch
  and in the append branch, but for its priority.
\<close>

definition installedRule :: "string \<Rightarrow> int64 option \<Rightarrow> s3Destination \<Rightarrow> replicationRule" where
  "installedRule ruleID priority destination =
     \<lparr>ID = Some ruleID, Status = Some ''Enabled'', Priority = priority,
      Filter = Some \<lparr>Prefix = Some []\<rparr>, Destination = Some destination,
      DeleteMarkerReplication = Some \<lparr>MarkerStatus = Some ''Disabled''\<rparr>\<rparr>"

text \<open>The first loop: the largest priority, starting from 0, compared as signed \<open>int64\<close>.\<close>

fun maxPriorityLoop :: "replicationRule list \<Rightarrow> int64 \<Rightarrow> int64" where
  "maxPriorityLoop [] maxPriority = maxPriority"
| "maxPriorityLoop (r # rs) maxPriority =
     maxPriorityLoop rs
       (case Priority r of
          Some p \<Rightarrow> if maxPriority <s p then p else maxPriority
        | None \<Rightarrow> maxPriority)"

text \<open>The test of the second loop: the rule has a destination bucket, equal to the target's.\<close>

definition sameDestination :: "replicationRule \<Rightarrow> s3Destination \<Rightarrow> bool" where
  "sameDestination r destination =
     (case Destination r of
        None \<Rightarrow> False
      | Some d \<Rightarrow>
          (case Bucket d of
             None \<Rightarrow> False
           | Some b \<Rightarrow> (case Bucket destination of None \<Rightarrow> False | Some b' \<Rightarrow> b = b')))"

text \<open>
  The second loop: the first rule with the target's destination is overwritten in its
  slot and the loop breaks; the flag is \<open>updated\<close>.
\<close>

fun updateLoop ::
  "replicationRule list \<Rightarrow> s3Destination \<Rightarrow> string \<Rightarrow> int64 \<Rightarrow> replicationRule list \<times> bool" where
  "updateLoop [] destination ruleID maxPriority = ([], False)"
| "updateLoop (r # rs) destination ruleID maxPriority =
     (if sameDestination r destination then
        (installedRule ruleID
           (case Priority r of None \<Rightarrow> Some (maxPriority + 1) | Some p \<Rightarrow> Some p)
           destination # rs, True)
      else
        (case updateLoop rs destination ruleID maxPriority of
           (rs', updated) \<Rightarrow> (r # rs', updated)))"

text \<open>The rules read from the bucket: none when the call failed or gave no configuration.\<close>

fun fetchedRules :: "error + replicationConfiguration option \<Rightarrow> replicationRule list" where
  "fetchedRules (Inr (Some cfg)) = Rules cfg"
| "fetchedRules (Inr None) = []"
| "fetchedRules (Inl err) = []"

text \<open>The two loops and the append: from the rules read to the rules written.\<close>

definition mergeRule :: "replicationRule list \<Rightarrow> string \<Rightarrow> replicationRule list" where
  "mergeRule existingRules dstBucket =
     (let dstARN = ''arn:aws:s3:::'' @ dstBucket;
          destination = \<lparr>Bucket = Some dstARN\<rparr>;
          ruleID = ''replicate-to-'' @ dstBucket;
          maxPriority = maxPriorityLoop existingRules 0
      in case updateLoop existingRules destination ruleID maxPriority of
           (rules, updated) \<Rightarrow>
             if \<not> updated then
               rules @ [installedRule ruleID (Some (maxPriority + 1)) destination]
             else rules)"

definition putReplicationConfiguration ::
  "aws \<Rightarrow> string \<Rightarrow> string \<Rightarrow> string \<Rightarrow> string \<Rightarrow> call list \<Rightarrow> error option \<times> call list" where
  "putReplicationConfiguration svc s3client srcBucket dstBucket roleArn lg =
     (let lg1 = lg @ [GetBucketReplicationCall s3client srcBucket];
          existingRules = fetchedRules (GetBucketReplication svc lg1);
          configuration = \<lparr>Role = Some roleArn, Rules = mergeRule existingRules dstBucket\<rparr>;
          lg2 = lg1 @ [PutBucketReplicationCall s3client srcBucket configuration]
      in case PutBucketReplication svc lg2 of
           Some err \<Rightarrow> (Some (WrapErr ''PutBucketReplication failed'' err), lg2)
         | None \<Rightarrow> (None, lg2))"

subsection \<open>main\<close>

text \<open>
  The four stages in order, each ending the run on its first error. The destination bucket
  is handled through the client of the destination region, the source bucket through that
  of the source region.
\<close>

definition setupMain ::
  "aws \<Rightarrow> string \<Rightarrow> string \<Rightarrow> string \<Rightarrow> string \<Rightarrow> string \<Rightarrow> call list \<Rightarrow> outcome \<times> call list" where
  "setupMain svc srcBucket srcRegion dstBucket dstRegion roleName lg =
     (if srcBucket = [] \<or> dstBucket = [] then
        (Fatal ''Both --source-bucket and --dest-bucket must be provided.'' None, lg)
      else
        (case ensureBucketExists svc dstRegion dstBucket dstRegion lg of
           (Some err, lg1) \<Rightarrow> (Fatal ''Failed ensuring destination bucket'' (Some err), lg1)
         | (None, lg1) \<Rightarrow>
        (case enableBucketVersioning svc srcRegion srcBucket lg1 of
           (Some err, lg2) \<Rightarrow>
             (Fatal ''Failed enabling versioning on source bucket'' (Some err), lg2)
         | (None, lg2) \<Rightarrow>
        (case enableBucketVersioning svc dstRegion dstBucket lg2 of
           (Some err, lg3) \<Rightarrow>
             (Fatal ''Failed enabling versioning on destination bucket'' (Some err), lg3)
         | (None, lg3) \<Rightarrow>
        (case ensureReplicationRole svc roleName srcBucket dstBucket dstRegion lg3 of
           (Inl err, lg4) \<Rightarrow> (Fatal ''Failed to ensure IAM replication role'' (Some err), lg4)
         | (Inr roleArn, lg4) \<Rightarrow>
        (case putReplicationConfiguration svc srcRegion srcBucket dstBucket roleArn lg4 of
           (Some err, lg5) \<Rightarrow>
             (Fatal ''Failed to put replication configuration'' (Some err), lg5)
         | (None, lg5) \<Rightarrow> (Completed, lg5)))))))"

section \<open>The verification tools\<close>

subsection \<open>The polling loop\<close>

text \<open>
  The loop \<open>for i := 0; i < 12; i++\<close> of both verifiers: a wait of 10 seconds, then a
  \<open>HeadObject\<close> on the destination through the client of the given region; the first
  nil error sets \<open>found\<close> and breaks.
\<close>

function pollLoop ::
  "aws \<Rightarrow> string \<Rightarrow> string \<Rightarrow> string \<Rightarrow> nat \<Rightarrow> call list \<Rightarrow> bool \<times> call list" where
  "pollLoop svc region bucket key i lg =
     (if i < 12 then
        (let lg1 = lg @ [Sleep 10];
             lg2 = lg1 @ [HeadObjectCall region bucket key] in
         case HeadObject svc lg2 of
           None \<Rightarrow> (True, lg2)
         | Some err \<Rightarrow> pollLoop svc region bucket key (i + 1) lg2)
      else (False, lg))"
  by pat_completeness auto
termination
  by (relation "measure (\<lambda>(svc, region, bucket, key, i, lg). 12 - i)") auto

declare pollLoop.simps [simp del]

subsection \<open>listObjects\<close>

text \<open>
  \<open>ListObjectsV2Pages\<close> hands the pages to the callback, which asks for the next one until
  the last; the keys are collected in order, and dropped when the call ends in an error.
\<close>

definition listObjects ::
  "aws \<Rightarrow> string \<Rightarrow> string \<Rightarrow> call list \<Rightarrow> (error + string list) \<times> call list" where
  "listObjects svc s3client bucket lg =
     (let lg1 = lg @ [ListObjectsV2PagesCall s3client bucket] in
      case ListObjectsV2Pages svc lg1 of
        (pages, Some err) \<Rightarrow> (Inl err, lg1)
      | (pages, None) \<Rightarrow> (Inr (concat pages), lg1))"

subsection \<open>The verifier with a given destination\<close>


subsection \<open>The verifier that discovers its destinations\<close>

text \<open>
  The region of a destination, as both loops over the destinations compute it from the
  answer of \<open>GetBucketLocation\<close>: the source region unless the call succeeded with a
  location constraint, whose values \<open>""\<close> and \<open>EU\<close> are replaced.
\<close>

definition detectRegion :: "string \<Rightarrow> error + string option \<Rightarrow> string" where
  "detectRegion srcRegion locOut =
     (case locOut of
        Inr (Some locationConstraint) \<Rightarrow>
          (let detectedRegion = locationConstraint;
               detectedRegion = (if detectedRegion = [] then ''us-east-1'' else detectedRegion);
               detectedRegion = (if detectedRegion = ''EU'' then ''eu-west-1'' else detectedRegion)
           in detectedRegion)
      | Inr None \<Rightarrow> srcRegion
      | Inl err \<Rightarrow> srcRegion)"

text \<open>Step 3 for one destination: the lookup through a client of the source region, then the poll.\<close>

definition checkDestination ::
  "aws \<Rightarrow> string \<Rightarrow> string \<Rightarrow> string \<Rightarrow> call list \<Rightarrow> bool \<times> call list" where
  "checkDestination svc srcRegion key dstBucket lg =
     (let lg1 = lg @ [GetBucketLocationCall srcRegion dstBucket];
          detectedRegion = detectRegion srcRegion (GetBucketLocation svc lg1)
      in pollLoop svc detectedRegion dstBucket key 0 lg1)"


text \<open>Step 4 for one destination: the lookup again, then the listing and the comparison.\<close>

definition listDestination ::
  "aws \<Rightarrow> string \<Rightarrow> nat \<Rightarrow> string \<Rightarrow> call list \<Rightarrow>
     (error + string \<times> string \<times> nat \<times> bool) \<times> call list" where
  "listDestination svc srcRegion srcCount dstBucket lg =
     (let lg1 = lg @ [GetBucketLocationCall srcRegion dstBucket];
          detectedRegion = detectRegion srcRegion (GetBucketLocation svc lg1) in
      case listObjects svc detectedRegion dstBucket lg1 of
        (Inl err, lg2) \<Rightarrow> (Inl err, lg2)
      | (Inr dstObjects, lg2) \<Rightarrow>
          (Inr (dstBucket, detectedRegion, length dstObjects, length dstObjects \<ge> srcCount),
           lg2))"



section \<open>Vocabulary of the properties\<close>

text \<open>The location constraint that \<open>ensureBucketExists\<close> sends with its create call.\<close>

definition createLocation :: "string \<Rightarrow> string option" where
  "createLocation region = (if region \<noteq> ''us-east-1'' then Some region else None)"

text \<open>The name under which \<open>ensureReplicationRole\<close> stores its inline policy.\<close>

definition policyName :: "string \<Rightarrow> string \<Rightarrow> string \<Rightarrow> string" where
  "policyName roleName srcBucket dstBucket =
     roleName @ ''-replication-'' @ srcBucket @ ''-to-'' @ dstBucket"

text \<open>
  The destination reference of a rule, when it has one, and the references of a list of
  rules in order. No two rules share a destination reference when that list has no
  repetition.
\<close>

definition destinationRef :: "replicationRule \<Rightarrow> string option" where
  "destinationRef r = (case Destination r of None \<Rightarrow> None | Some d \<Rightarrow> Bucket d)"

fun destinationRefs :: "replicationRule list \<Rightarrow> string list" where
  "destinationRefs [] = []"
| "destinationRefs (r # rs) =
     (case destinationRef r of
        None \<Rightarrow> destinationRefs rs
      | Some b \<Rightarrow> b # destinationRefs rs)"

definition noSharedDestination :: "replicationRule list \<Rightarrow> bool" where
  "noSharedDestination rules = distinct (destinationRefs rules)"

text \<open>
  The \<open>maxPriority\<close> of the specification, in its words: the maximum priority over the
  existing rules, a rule that lacks a priority counting as priority 0. It is 0 for no
  rules at all, so the maximum is taken over 0 and the rules' priorities. Priorities are
  read as signed 64-bit values.
\<close>

definition priorityOrZero :: "replicationRule \<Rightarrow> int" where
  "priorityOrZero r = (case Priority r of None \<Rightarrow> 0 | Some p \<Rightarrow> sint p)"

definition specMaxPriority :: "replicationRule list \<Rightarrow> int" where
  "specMaxPriority rules = Max (set (0 # map priorityOrZero rules))"


section \<open>Services used as test inputs\<close>

text \<open>A provider where every call succeeds and nothing is configured yet.\<close>

definition calm :: aws where
  "calm =
     \<lparr>HeadBucket = (\<lambda>h. None), CreateBucket = (\<lambda>h. None),
      WaitUntilBucketExists = (\<lambda>h. None), PutBucketVersioning = (\<lambda>h. None),
      GetBucketReplication = (\<lambda>h. Inr None), PutBucketReplication = (\<lambda>h. None),
      GetBucketLocation = (\<lambda>h. Inr None), PutObject = (\<lambda>h. None),
      HeadObject = (\<lambda>h. None), ListObjectsV2Pages = (\<lambda>h. ([], None)),
      CreateRole = (\<lambda>h. Inr (Some ''arn:aws:iam::1:role/r'')),
      GetRole = (\<lambda>h. Inr (Some ''arn:aws:iam::1:role/r'')),
      PutRolePolicy = (\<lambda>h. None)\<rparr>"

text \<open>
  Providers for the create-or-adopt paths: a bucket name that the caller owns but cannot
  probe, one that another account owns, and a probe that fails for a reason other than
  the bucket's absence.
\<close>

definition ownedByCaller :: aws where
  "ownedByCaller =
     calm\<lparr>HeadBucket := (\<lambda>h. Some (AwsErr ''NotFound'' ''Not Found'')),
          CreateBucket := (\<lambda>h. Some (AwsErr ''BucketAlreadyOwnedByYou'' []))\<rparr>"

definition ownedByOther :: aws where
  "ownedByOther =
     calm\<lparr>HeadBucket := (\<lambda>h. Some (AwsErr ''Forbidden'' ''Forbidden'')),
          CreateBucket := (\<lambda>h. Some (AwsErr ''BucketAlreadyExists'' []))\<rparr>"

definition probeTimesOut :: aws where
  "probeTimesOut =
     calm\<lparr>HeadBucket := (\<lambda>h. Some (PlainErr ''RequestError: send request failed''))\<rparr>"

text \<open>A role that exists already, and an account that may not create roles.\<close>

definition roleExists :: aws where
  "roleExists =
     calm\<lparr>CreateRole := (\<lambda>h. Inl (AwsErr ''EntityAlreadyExists'' [])),
          GetRole := (\<lambda>h. Inr (Some ''arn:aws:iam::1:role/old''))\<rparr>"

definition roleDenied :: aws where
  "roleDenied = calm\<lparr>CreateRole := (\<lambda>h. Inl (AwsErr ''AccessDenied'' []))\<rparr>"

text \<open>
  A source bucket that replicates to \<open>a\<close> with priority 1 and to \<open>b\<close> with priority 2,
  under rules that another tool wrote; the same with no priority on the second rule.
\<close>

definition ruleA :: replicationRule where
  "ruleA =
     \<lparr>ID = Some ''to-a'', Status = Some ''Enabled'', Priority = Some 1,
      Filter = Some \<lparr>Prefix = Some ''logs/''\<rparr>,
      Destination = Some \<lparr>Bucket = Some ''arn:aws:s3:::a''\<rparr>,
      DeleteMarkerReplication = Some \<lparr>MarkerStatus = Some ''Enabled''\<rparr>\<rparr>"

definition ruleB :: replicationRule where
  "ruleB =
     \<lparr>ID = Some ''to-b'', Status = Some ''Disabled'', Priority = Some 2,
      Filter = None,
      Destination = Some \<lparr>Bucket = Some ''arn:aws:s3:::b''\<rparr>,
      DeleteMarkerReplication = None\<rparr>"

definition twoRules :: aws where
  "twoRules =
     calm\<lparr>GetBucketReplication :=
       (\<lambda>h. Inr (Some \<lparr>Role = Some ''arn:aws:iam::1:role/r'', Rules = [ruleA, ruleB]\<rparr>))\<rparr>"

definition priorityMissing :: aws where
  "priorityMissing =
     calm\<lparr>GetBucketReplication :=
       (\<lambda>h. Inr (Some \<lparr>Role = Some ''arn:aws:iam::1:role/r'',
                         Rules = [ruleA, ruleB\<lparr>Priority := None\<rparr>]\<rparr>))\<rparr>"

text \<open>
  A provider that refuses to show the replication configuration, and one that refuses to
  store it.
\<close>

definition fetchDenied :: aws where
  "fetchDenied =
     calm\<lparr>GetBucketReplication := (\<lambda>h. Inl (AwsErr ''AccessDenied'' ''Access Denied''))\<rparr>"

definition writeRefused :: aws where
  "writeRefused =
     calm\<lparr>PutBucketReplication := (\<lambda>h. Some (AwsErr ''InvalidRequest'' []))\<rparr>"



text \<open>
  A provider with buckets in the legacy locations, answering as the SDK hands the answers
  over: \<open>EU\<close> for the bucket \<open>old-eu\<close>, and a nil \<open>LocationConstraint\<close> for every other
  bucket, which is how the empty location constraint of a bucket in \<open>us-east-1\<close> arrives.
\<close>

definition legacyLocations :: aws where
  "legacyLocations =
     calm\<lparr>GetBucketLocation :=
       (\<lambda>h. if last h = GetBucketLocationCall ''ap-south-1'' ''old-eu'' then Inr (Some ''EU'')
            else Inr None)\<rparr>"

text \<open>A provider that refuses the location lookup.\<close>

definition lookupDenied :: aws where
  "lookupDenied =
     calm\<lparr>GetBucketLocation := (\<lambda>h. Inl (AwsErr ''AccessDenied'' ''Access Denied''))\<rparr>"

section \<open>The destination bucket\<close>

text \<open>
  C5. When the probe has failed and the create call reports that the caller owns the
  bucket already, \<open>ensureBucketExists\<close> returns success; when it reports that the
  bucket exists (under another account), it returns the ownership error. In both cases the
  run has made the probe and one create call, and nothing after it; in the second case
  the setup tool ends there with a fatal error.
\<close>

theorem ownership_outcomes_of_create:
  "(HeadBucket svc (lg @ [HeadBucketCall s3client bucketName]) \<noteq> None \<and>
    CreateBucket svc (lg @ [HeadBucketCall s3client bucketName,
       CreateBucketCall s3client bucketName (createLocation region)]) = Some err \<and>
    awsCode err = Some ErrCodeBucketAlreadyOwnedByYou \<longrightarrow>
      ensureBucketExists svc s3client bucketName region lg =
        (None, lg @ [HeadBucketCall s3client bucketName,
                     CreateBucketCall s3client bucketName (createLocation region)])) \<and>
   (HeadBucket svc (lg @ [HeadBucketCall s3client bucketName]) \<noteq> None \<and>
    CreateBucket svc (lg @ [HeadBucketCall s3client bucketName,
       CreateBucketCall s3client bucketName (createLocation region)]) = Some err \<and>
    awsCode err = Some ErrCodeBucketAlreadyExists \<longrightarrow>
      ensureBucketExists svc s3client bucketName region lg =
        (Some (PlainErr (''bucket '' @ bucketName @
           '' already exists and is owned by another account'')),
         lg @ [HeadBucketCall s3client bucketName,
               CreateBucketCall s3client bucketName (createLocation region)]) \<and>
      (srcBucket \<noteq> [] \<and> bucketName \<noteq> [] \<and> s3client = region \<longrightarrow>
         setupMain svc srcBucket srcRegion bucketName region roleName lg =
           (Fatal ''Failed ensuring destination bucket''
              (Some (PlainErr (''bucket '' @ bucketName @
                 '' already exists and is owned by another account''))),
            lg @ [HeadBucketCall s3client bucketName,
                  CreateBucketCall s3client bucketName (createLocation region)])))"
proof -
  have own: "HeadBucket svc (lg @ [HeadBucketCall s3client bucketName]) \<noteq> None \<and>
    CreateBucket svc (lg @ [HeadBucketCall s3client bucketName,
       CreateBucketCall s3client bucketName (createLocation region)]) = Some err \<and>
    awsCode err = Some ErrCodeBucketAlreadyOwnedByYou \<longrightarrow>
      ensureBucketExists svc s3client bucketName region lg =
        (None, lg @ [HeadBucketCall s3client bucketName,
                     CreateBucketCall s3client bucketName (createLocation region)])"
    by (auto simp add: ensureBucketExists_def createLocation_def Let_def
        ErrCodeBucketAlreadyOwnedByYou_def ErrCodeBucketAlreadyExists_def)
  have other: "HeadBucket svc (lg @ [HeadBucketCall s3client bucketName]) \<noteq> None \<and>
    CreateBucket svc (lg @ [HeadBucketCall s3client bucketName,
       CreateBucketCall s3client bucketName (createLocation region)]) = Some err \<and>
    awsCode err = Some ErrCodeBucketAlreadyExists \<longrightarrow>
      ensureBucketExists svc s3client bucketName region lg =
        (Some (PlainErr (''bucket '' @ bucketName @
           '' already exists and is owned by another account'')),
         lg @ [HeadBucketCall s3client bucketName,
               CreateBucketCall s3client bucketName (createLocation region)])"
    by (auto simp add: ensureBucketExists_def createLocation_def Let_def
        ErrCodeBucketAlreadyOwnedByYou_def ErrCodeBucketAlreadyExists_def)
  have stop: "ensureBucketExists svc s3client bucketName region lg = (Some e, lg') \<Longrightarrow>
      srcBucket \<noteq> [] \<and> bucketName \<noteq> [] \<and> s3client = region \<Longrightarrow>
      setupMain svc srcBucket srcRegion bucketName region roleName lg =
        (Fatal ''Failed ensuring destination bucket'' (Some e), lg')" for e lg'
    by (simp add: setupMain_def)
  show ?thesis
    using own other stop by blast
qed

theorem ownership_outcomes_of_create_witness:
  "ensureBucketExists ownedByCaller ''us-west-2'' ''dst'' ''us-west-2'' [] =
     (None, [HeadBucketCall ''us-west-2'' ''dst'',
             CreateBucketCall ''us-west-2'' ''dst'' (Some ''us-west-2'')]) \<and>
   ensureBucketExists ownedByOther ''us-east-1'' ''dst'' ''us-east-1'' [] =
     (Some (PlainErr ''bucket dst already exists and is owned by another account''),
      [HeadBucketCall ''us-east-1'' ''dst'', CreateBucketCall ''us-east-1'' ''dst'' None]) \<and>
   setupMain ownedByOther ''src'' ''eu-west-1'' ''dst'' ''us-east-1'' ''role-x'' [] =
     (Fatal ''Failed ensuring destination bucket''
        (Some (PlainErr ''bucket dst already exists and is owned by another account'')),
      [HeadBucketCall ''us-east-1'' ''dst'', CreateBucketCall ''us-east-1'' ''dst'' None])"
  using ownership_outcomes_of_create [where svc = ownedByCaller and lg = "[]"
      and s3client = "''us-west-2''" and bucketName = "''dst''" and region = "''us-west-2''"
      and err = "AwsErr ''BucketAlreadyOwnedByYou'' []"]
    ownership_outcomes_of_create [where svc = ownedByOther and lg = "[]"
      and s3client = "''us-east-1''" and bucketName = "''dst''" and region = "''us-east-1''"
      and err = "AwsErr ''BucketAlreadyExists'' []" and srcBucket = "''src''"
      and srcRegion = "''eu-west-1''" and roleName = "''role-x''"]
  by (simp add: ownedByCaller_def ownedByOther_def calm_def createLocation_def
      ErrCodeBucketAlreadyOwnedByYou_def ErrCodeBucketAlreadyExists_def)

text \<open>
  C10. A probe that succeeds ends \<open>ensureBucketExists\<close> with success after that one
  call. A probe that fails, with whatever error, is followed by the create call.
\<close>

theorem any_probe_failure_leads_to_create:
  "(HeadBucket svc (lg @ [HeadBucketCall s3client bucketName]) = None \<longrightarrow>
      ensureBucketExists svc s3client bucketName region lg =
        (None, lg @ [HeadBucketCall s3client bucketName])) \<and>
   (HeadBucket svc (lg @ [HeadBucketCall s3client bucketName]) \<noteq> None \<longrightarrow>
      take 2 (drop (length lg) (snd (ensureBucketExists svc s3client bucketName region lg))) =
        [HeadBucketCall s3client bucketName,
         CreateBucketCall s3client bucketName (createLocation region)])"
  by (auto simp add: ensureBucketExists_def createLocation_def Let_def split: option.splits)

theorem any_probe_failure_leads_to_create_witness:
  "ensureBucketExists calm ''us-west-2'' ''dst'' ''us-west-2'' [] =
     (None, [HeadBucketCall ''us-west-2'' ''dst'']) \<and>
   snd (ensureBucketExists ownedByOther ''us-west-2'' ''dst'' ''us-west-2'' []) =
     [HeadBucketCall ''us-west-2'' ''dst'',
      CreateBucketCall ''us-west-2'' ''dst'' (Some ''us-west-2'')] \<and>
   ensureBucketExists probeTimesOut ''us-west-2'' ''dst'' ''us-west-2'' [] =
     (None, [HeadBucketCall ''us-west-2'' ''dst'',
             CreateBucketCall ''us-west-2'' ''dst'' (Some ''us-west-2''),
             WaitUntilBucketExistsCall ''us-west-2'' ''dst''])"
  using any_probe_failure_leads_to_create [where svc = calm and lg = "[]"
      and s3client = "''us-west-2''" and bucketName = "''dst''" and region = "''us-west-2''"]
    any_probe_failure_leads_to_create [where svc = ownedByOther and lg = "[]"
      and s3client = "''us-west-2''" and bucketName = "''dst''" and region = "''us-west-2''"]
    any_probe_failure_leads_to_create [where svc = probeTimesOut and lg = "[]"
      and s3client = "''us-west-2''" and bucketName = "''dst''" and region = "''us-west-2''"]
  by (simp add: ownedByOther_def probeTimesOut_def calm_def createLocation_def
      ensureBucketExists_def ErrCodeBucketAlreadyOwnedByYou_def ErrCodeBucketAlreadyExists_def)

section \<open>The replication role\<close>

text \<open>
  C6. When \<open>CreateRole\<close> fails with the code of an entity that exists already,
  \<open>ensureReplicationRole\<close> looks the role up by its name, and returns the ARN found as its
  result once the lookup and the policy attachment that follows have succeeded. When
  \<open>CreateRole\<close> fails with anything else, the function returns that error, wrapped, after
  this one call: no second attempt and no lookup.
\<close>

theorem role_is_adopted_on_conflict:
  "(CreateRole svc (lg @ [CreateRoleCall roleName]) = Inl err \<and>
    awsCode err = Some ErrCodeEntityAlreadyExistsException \<longrightarrow>
      take 2 (drop (length lg)
        (snd (ensureReplicationRole svc roleName srcBucket dstBucket dstRegion lg))) =
        [CreateRoleCall roleName, GetRoleCall roleName] \<and>
      (GetRole svc (lg @ [CreateRoleCall roleName, GetRoleCall roleName]) = Inr arn \<and>
       PutRolePolicy svc (lg @ [CreateRoleCall roleName, GetRoleCall roleName,
          PutRolePolicyCall roleName (policyName roleName srcBucket dstBucket)]) = None \<longrightarrow>
         ensureReplicationRole svc roleName srcBucket dstBucket dstRegion lg =
           (Inr (StringValue arn),
            lg @ [CreateRoleCall roleName, GetRoleCall roleName,
                  PutRolePolicyCall roleName (policyName roleName srcBucket dstBucket),
                  Sleep 5]))) \<and>
   (CreateRole svc (lg @ [CreateRoleCall roleName]) = Inl err \<and>
    awsCode err \<noteq> Some ErrCodeEntityAlreadyExistsException \<longrightarrow>
      ensureReplicationRole svc roleName srcBucket dstBucket dstRegion lg =
        (Inl (WrapErr ''CreateRole error'' err), lg @ [CreateRoleCall roleName]))"
  by (auto simp add: ensureReplicationRole_def policyName_def Let_def
      split: sum.splits option.splits)

theorem role_is_adopted_on_conflict_witness:
  "ensureReplicationRole roleExists ''role-x'' ''src'' ''dst'' ''us-west-2'' [] =
     (Inr ''arn:aws:iam::1:role/old'',
      [CreateRoleCall ''role-x'', GetRoleCall ''role-x'',
       PutRolePolicyCall ''role-x'' ''role-x-replication-src-to-dst'', Sleep 5]) \<and>
   ensureReplicationRole roleDenied ''role-x'' ''src'' ''dst'' ''us-west-2'' [] =
     (Inl (WrapErr ''CreateRole error'' (AwsErr ''AccessDenied'' [])), [CreateRoleCall ''role-x''])"
  using role_is_adopted_on_conflict [where svc = roleExists and lg = "[]"
      and roleName = "''role-x''" and srcBucket = "''src''" and dstBucket = "''dst''"
      and dstRegion = "''us-west-2''" and err = "AwsErr ''EntityAlreadyExists'' []"
      and arn = "Some ''arn:aws:iam::1:role/old''"]
    role_is_adopted_on_conflict [where svc = roleDenied and lg = "[]"
      and roleName = "''role-x''" and srcBucket = "''src''" and dstBucket = "''dst''"
      and dstRegion = "''us-west-2''" and err = "AwsErr ''AccessDenied'' []"]
  by (simp add: roleExists_def roleDenied_def calm_def policyName_def
      ErrCodeEntityAlreadyExistsException_def)

section \<open>The replication rules\<close>

lemma sameDestination_iff:
  "sameDestination r \<lparr>Bucket = Some a\<rparr> \<longleftrightarrow> destinationRef r = Some a"
  by (simp add: sameDestination_def destinationRef_def split: option.splits)

lemma destinationRef_installedRule:
  "destinationRef (installedRule ruleID priority \<lparr>Bucket = Some a\<rparr>) = Some a"
  by (simp add: destinationRef_def installedRule_def)

lemma destinationRefs_append:
  "destinationRefs (xs @ ys) = destinationRefs xs @ destinationRefs ys"
  by (induction xs) (simp_all split: option.splits)

lemma set_destinationRefs:
  "set (destinationRefs rs) = {a. \<exists>r \<in> set rs. destinationRef r = Some a}"
  by (induction rs) (auto split: option.splits)

lemma updateLoop_no_match:
  "\<forall>r \<in> set rs. \<not> sameDestination r destination \<Longrightarrow>
   updateLoop rs destination ruleID maxPriority = (rs, False)"
  by (induction rs) simp_all

lemma updateLoop_match:
  "i < length rs \<Longrightarrow> sameDestination (rs ! i) destination \<Longrightarrow>
   \<forall>j < i. \<not> sameDestination (rs ! j) destination \<Longrightarrow>
   updateLoop rs destination ruleID maxPriority =
     (rs[i := installedRule ruleID
        (case Priority (rs ! i) of None \<Rightarrow> Some (maxPriority + 1) | Some p \<Rightarrow> Some p)
        destination], True)"
proof (induction rs arbitrary: i)
  case Nil
  then show ?case by simp
next
  case (Cons r rs)
  show ?case
  proof (cases i)
    case 0
    then show ?thesis using Cons.prems by simp
  next
    case (Suc k)
    then have first: "\<not> sameDestination r destination"
      using Cons.prems(3) by auto
    have "updateLoop rs destination ruleID maxPriority =
       (rs[k := installedRule ruleID
          (case Priority (rs ! k) of None \<Rightarrow> Some (maxPriority + 1) | Some p \<Rightarrow> Some p)
          destination], True)"
    proof (rule Cons.IH)
      show "k < length rs" using Cons.prems(1) Suc by simp
      show "sameDestination (rs ! k) destination" using Cons.prems(2) Suc by simp
      show "\<forall>j<k. \<not> sameDestination (rs ! j) destination"
        using Cons.prems(3) Suc by auto
    qed
    then show ?thesis using first Suc by simp
  qed
qed

lemma updateLoop_refs:
  "destinationRefs (fst (updateLoop rs \<lparr>Bucket = Some a\<rparr> ruleID maxPriority)) = destinationRefs rs"
  by (induction rs)
    (auto simp add: sameDestination_iff destinationRef_installedRule
       split: prod.splits option.splits)

lemma updateLoop_updated:
  "snd (updateLoop rs \<lparr>Bucket = Some a\<rparr> ruleID maxPriority) \<longleftrightarrow> a \<in> set (destinationRefs rs)"
  by (induction rs) (auto simp add: sameDestination_iff split: prod.splits option.splits)

lemma mergeRule_refs:
  "destinationRefs (mergeRule rs dstBucket) =
     (if ''arn:aws:s3:::'' @ dstBucket \<in> set (destinationRefs rs) then destinationRefs rs
      else destinationRefs rs @ [''arn:aws:s3:::'' @ dstBucket])"
proof -
  let ?d = "\<lparr>Bucket = Some (''arn:aws:s3:::'' @ dstBucket)\<rparr>"
  let ?id = "''replicate-to-'' @ dstBucket"
  let ?m = "maxPriorityLoop rs 0"
  obtain rules updated where u: "updateLoop rs ?d ?id ?m = (rules, updated)"
    by (cases "updateLoop rs ?d ?id ?m")
  have refs: "destinationRefs rules = destinationRefs rs"
    using updateLoop_refs [of rs "''arn:aws:s3:::'' @ dstBucket" ?id ?m] u by simp
  have upd: "updated \<longleftrightarrow> ''arn:aws:s3:::'' @ dstBucket \<in> set (destinationRefs rs)"
    using updateLoop_updated [of rs "''arn:aws:s3:::'' @ dstBucket" ?id ?m] u by simp
  show ?thesis
    using u refs upd
    by (simp add: mergeRule_def Let_def destinationRefs_append destinationRef_installedRule)
qed

lemma mergeRule_noShared:
  "noSharedDestination rs \<Longrightarrow> noSharedDestination (mergeRule rs dstBucket)"
  by (simp add: noSharedDestination_def mergeRule_refs)

lemma putReplicationConfiguration_log:
  "snd (putReplicationConfiguration svc s3client srcBucket dstBucket roleArn lg) =
     lg @ [GetBucketReplicationCall s3client srcBucket,
           PutBucketReplicationCall s3client srcBucket
             \<lparr>Role = Some roleArn,
              Rules = mergeRule (fetchedRules (GetBucketReplication svc
                 (lg @ [GetBucketReplicationCall s3client srcBucket]))) dstBucket\<rparr>]"
  by (simp add: putReplicationConfiguration_def Let_def split: option.splits)

lemma maxPriorityLoop_fold:
  "sint (maxPriorityLoop rs m) =
     fold max (map priorityOrZero rs) (sint m)" if "0 \<le> sint m"
  using that
proof (induction rs arbitrary: m)
  case Nil
  then show ?case by simp
next
  case (Cons r rs)
  show ?case
  proof (cases "Priority r")
    case None
    then show ?thesis using Cons by (simp add: priorityOrZero_def max_def)
  next
    case (Some p)
    let ?m' = "if m <s p then p else m"
    have ge: "0 \<le> sint ?m'" using Cons.prems by (auto simp add: word_sless_alt)
    have "sint ?m' = max (sint p) (sint m)" by (auto simp add: word_sless_alt max_def)
    then show ?thesis using Cons.IH [OF ge] Some by (simp add: priorityOrZero_def)
  qed
qed

lemma maxPriorityLoop_spec:
  "sint (maxPriorityLoop rs 0) = specMaxPriority rs"
proof -
  have "sint (maxPriorityLoop rs 0) = fold max (map priorityOrZero rs) 0"
    using maxPriorityLoop_fold [of 0 rs] by simp
  also have "\<dots> = Max (set (0 # map priorityOrZero rs))"
    by (simp only: Max.set_eq_fold)
  finally show ?thesis by (simp add: specMaxPriority_def)
qed

text \<open>
  On rules whose priorities are not negative, as the data model has them, the
  specification's \<open>maxPriority\<close> is the plain maximum over the rules.
\<close>

lemma specMaxPriority_plain:
  assumes "rules \<noteq> []" and "\<forall>r \<in> set rules. 0 \<le> priorityOrZero r"
  shows "specMaxPriority rules = Max (priorityOrZero ` set rules)"
proof -
  let ?A = "priorityOrZero ` set rules"
  have fin: "finite ?A" and ne: "?A \<noteq> {}" using assms(1) by simp_all
  obtain r where "r \<in> set rules" using assms(1) by (cases rules) auto
  then have "priorityOrZero r \<in> ?A" and "0 \<le> priorityOrZero r" using assms(2) by auto
  then have "0 \<le> Max ?A" using fin by (meson Max_ge order_trans)
  then have "Max (insert 0 ?A) = Max ?A"
    using fin ne by (simp add: max_def)
  then show ?thesis by (simp add: specMaxPriority_def)
qed

lemma sint_succ:
  fixes w :: int64
  assumes "sint w < 2 ^ 63 - 1"
  shows "sint (w + 1) = sint w + 1"
proof -
  have lo: "- (2 ^ 63) \<le> sint w" using sint_ge [of w] by simp
  have "sint (w + 1) = signed_take_bit 63 (sint w + 1)"
    by (simp add: sint_word_ariths)
  also have "\<dots> = sint w + 1"
    using lo assms by (intro signed_take_bit_int_eq_self) simp_all
  finally show ?thesis .
qed

lemma count_list_distinct:
  "distinct xs \<Longrightarrow> x \<in> set xs \<Longrightarrow> count_list xs x = 1"
  by (induction xs) auto

text \<open>
  C1, as stated, fails: a fetch that is refused with \<open>AccessDenied\<close>, which says nothing
  about a configuration being absent, is swallowed too. The function returns nil and
  stores a configuration of one rule.
\<close>

theorem access_denied_fetch_is_swallowed:
  "GetBucketReplication fetchDenied [GetBucketReplicationCall ''us-east-1'' ''src''] =
     Inl (AwsErr ''AccessDenied'' ''Access Denied'') \<and>
   putReplicationConfiguration fetchDenied ''us-east-1'' ''src'' ''dst'' ''arn:aws:iam::1:role/r'' [] =
     (None,
      [GetBucketReplicationCall ''us-east-1'' ''src'',
       PutBucketReplicationCall ''us-east-1'' ''src''
         \<lparr>Role = Some ''arn:aws:iam::1:role/r'',
          Rules = [
            \<lparr>ID = Some ''replicate-to-dst'', Status = Some ''Enabled'', Priority = Some 1,
             Filter = Some \<lparr>Prefix = Some []\<rparr>,
             Destination = Some \<lparr>Bucket = Some ''arn:aws:s3:::dst''\<rparr>,
             DeleteMarkerReplication = Some \<lparr>MarkerStatus = Some ''Disabled''\<rparr>\<rparr>]\<rparr>])"
  by (simp add: fetchDenied_def calm_def putReplicationConfiguration_def mergeRule_def
      installedRule_def)

text \<open>
  C1, amended. Every failure of the fetch, whatever its kind, is swallowed and treated as
  an empty rule set: the configuration stored holds the one new rule, with priority 1, and
  the function returns nil when the store succeeds. Every failure of the store is
  returned to the caller, wrapped, and the run has made the fetch and one store, and
  nothing after it.
\<close>

theorem every_fetch_failure_is_swallowed:
  "(GetBucketReplication svc (lg @ [GetBucketReplicationCall s3client srcBucket]) = Inl ferr \<longrightarrow>
      snd (putReplicationConfiguration svc s3client srcBucket dstBucket roleArn lg) =
        lg @ [GetBucketReplicationCall s3client srcBucket,
              PutBucketReplicationCall s3client srcBucket
                \<lparr>Role = Some roleArn,
                 Rules = [
                   \<lparr>ID = Some (''replicate-to-'' @ dstBucket), Status = Some ''Enabled'',
                    Priority = Some 1, Filter = Some \<lparr>Prefix = Some []\<rparr>,
                    Destination = Some \<lparr>Bucket = Some (''arn:aws:s3:::'' @ dstBucket)\<rparr>,
                    DeleteMarkerReplication = Some \<lparr>MarkerStatus = Some ''Disabled''\<rparr>\<rparr>]\<rparr>] \<and>
      (PutBucketReplication svc
         (snd (putReplicationConfiguration svc s3client srcBucket dstBucket roleArn lg)) = None \<longrightarrow>
         fst (putReplicationConfiguration svc s3client srcBucket dstBucket roleArn lg) = None)) \<and>
   (fetchedRules (GetBucketReplication svc (lg @ [GetBucketReplicationCall s3client srcBucket])) =
      existingRules \<and>
    PutBucketReplication svc
      (lg @ [GetBucketReplicationCall s3client srcBucket,
             PutBucketReplicationCall s3client srcBucket
               \<lparr>Role = Some roleArn, Rules = mergeRule existingRules dstBucket\<rparr>]) = Some werr \<longrightarrow>
      putReplicationConfiguration svc s3client srcBucket dstBucket roleArn lg =
        (Some (WrapErr ''PutBucketReplication failed'' werr),
         lg @ [GetBucketReplicationCall s3client srcBucket,
               PutBucketReplicationCall s3client srcBucket
                 \<lparr>Role = Some roleArn, Rules = mergeRule existingRules dstBucket\<rparr>]))"
proof (intro conjI impI)
  assume f: "GetBucketReplication svc (lg @ [GetBucketReplicationCall s3client srcBucket]) = Inl ferr"
  have e: "mergeRule [] dstBucket =
      [\<lparr>ID = Some (''replicate-to-'' @ dstBucket), Status = Some ''Enabled'',
        Priority = Some 1, Filter = Some \<lparr>Prefix = Some []\<rparr>,
        Destination = Some \<lparr>Bucket = Some (''arn:aws:s3:::'' @ dstBucket)\<rparr>,
        DeleteMarkerReplication = Some \<lparr>MarkerStatus = Some ''Disabled''\<rparr>\<rparr>]"
    by (simp add: mergeRule_def installedRule_def)
  show "snd (putReplicationConfiguration svc s3client srcBucket dstBucket roleArn lg) =
        lg @ [GetBucketReplicationCall s3client srcBucket,
              PutBucketReplicationCall s3client srcBucket
                \<lparr>Role = Some roleArn,
                 Rules = [
                   \<lparr>ID = Some (''replicate-to-'' @ dstBucket), Status = Some ''Enabled'',
                    Priority = Some 1, Filter = Some \<lparr>Prefix = Some []\<rparr>,
                    Destination = Some \<lparr>Bucket = Some (''arn:aws:s3:::'' @ dstBucket)\<rparr>,
                    DeleteMarkerReplication = Some \<lparr>MarkerStatus = Some ''Disabled''\<rparr>\<rparr>]\<rparr>]"
    using f e putReplicationConfiguration_log [of svc s3client srcBucket dstBucket roleArn lg]
    by simp
next
  assume "PutBucketReplication svc
         (snd (putReplicationConfiguration svc s3client srcBucket dstBucket roleArn lg)) = None"
  then show "fst (putReplicationConfiguration svc s3client srcBucket dstBucket roleArn lg) = None"
    by (simp add: putReplicationConfiguration_log) (simp add: putReplicationConfiguration_def Let_def)
next
  assume "fetchedRules (GetBucketReplication svc (lg @ [GetBucketReplicationCall s3client srcBucket])) =
      existingRules \<and>
    PutBucketReplication svc
      (lg @ [GetBucketReplicationCall s3client srcBucket,
             PutBucketReplicationCall s3client srcBucket
               \<lparr>Role = Some roleArn, Rules = mergeRule existingRules dstBucket\<rparr>]) = Some werr"
  then show "putReplicationConfiguration svc s3client srcBucket dstBucket roleArn lg =
        (Some (WrapErr ''PutBucketReplication failed'' werr),
         lg @ [GetBucketReplicationCall s3client srcBucket,
               PutBucketReplicationCall s3client srcBucket
                 \<lparr>Role = Some roleArn, Rules = mergeRule existingRules dstBucket\<rparr>])"
    by (auto simp add: putReplicationConfiguration_def Let_def)
qed

theorem every_fetch_failure_is_swallowed_witness:
  "fst (putReplicationConfiguration fetchDenied ''us-east-1'' ''src'' ''dst''
          ''arn:aws:iam::1:role/r'' []) = None \<and>
   putReplicationConfiguration writeRefused ''us-east-1'' ''src'' ''dst''
          ''arn:aws:iam::1:role/r'' [] =
     (Some (WrapErr ''PutBucketReplication failed'' (AwsErr ''InvalidRequest'' [])),
      [GetBucketReplicationCall ''us-east-1'' ''src'',
       PutBucketReplicationCall ''us-east-1'' ''src''
         \<lparr>Role = Some ''arn:aws:iam::1:role/r'', Rules = mergeRule [] ''dst''\<rparr>])"
  using every_fetch_failure_is_swallowed [where svc = fetchDenied and lg = "[]"
      and s3client = "''us-east-1''" and srcBucket = "''src''" and dstBucket = "''dst''"
      and roleArn = "''arn:aws:iam::1:role/r''" and ferr = "AwsErr ''AccessDenied'' ''Access Denied''"
      and existingRules = "[]"]
    every_fetch_failure_is_swallowed [where svc = writeRefused and lg = "[]"
      and s3client = "''us-east-1''" and srcBucket = "''src''" and dstBucket = "''dst''"
      and roleArn = "''arn:aws:iam::1:role/r''" and werr = "AwsErr ''InvalidRequest'' []"
      and existingRules = "[]"]
  by (simp add: fetchDenied_def writeRefused_def calm_def)

text \<open>
  C2. When the rules read from the bucket share no destination reference, neither do the
  rules that \<open>putReplicationConfiguration\<close> stores, for whatever destination, and exactly
  one of them refers to the requested destination.
\<close>

theorem merge_keeps_destinations_distinct:
  "fetchedRules (GetBucketReplication svc (lg @ [GetBucketReplicationCall s3client srcBucket])) =
     existingRules \<and>
   noSharedDestination existingRules \<longrightarrow>
     snd (putReplicationConfiguration svc s3client srcBucket dstBucket roleArn lg) =
       lg @ [GetBucketReplicationCall s3client srcBucket,
             PutBucketReplicationCall s3client srcBucket
               \<lparr>Role = Some roleArn, Rules = mergeRule existingRules dstBucket\<rparr>] \<and>
     noSharedDestination (mergeRule existingRules dstBucket) \<and>
     count_list (destinationRefs (mergeRule existingRules dstBucket))
       (''arn:aws:s3:::'' @ dstBucket) = 1"
proof (intro impI, elim conjE)
  assume f: "fetchedRules (GetBucketReplication svc
       (lg @ [GetBucketReplicationCall s3client srcBucket])) = existingRules"
    and d: "noSharedDestination existingRules"
  have m: "noSharedDestination (mergeRule existingRules dstBucket)"
    using d by (rule mergeRule_noShared)
  have "''arn:aws:s3:::'' @ dstBucket \<in> set (destinationRefs (mergeRule existingRules dstBucket))"
    by (simp add: mergeRule_refs)
  then have "count_list (destinationRefs (mergeRule existingRules dstBucket))
       (''arn:aws:s3:::'' @ dstBucket) = 1"
    using m by (simp add: noSharedDestination_def count_list_distinct)
  then show "snd (putReplicationConfiguration svc s3client srcBucket dstBucket roleArn lg) =
       lg @ [GetBucketReplicationCall s3client srcBucket,
             PutBucketReplicationCall s3client srcBucket
               \<lparr>Role = Some roleArn, Rules = mergeRule existingRules dstBucket\<rparr>] \<and>
     noSharedDestination (mergeRule existingRules dstBucket) \<and>
     count_list (destinationRefs (mergeRule existingRules dstBucket))
       (''arn:aws:s3:::'' @ dstBucket) = 1"
    using m f putReplicationConfiguration_log [of svc s3client srcBucket dstBucket roleArn lg]
    by simp
qed

theorem merge_keeps_destinations_distinct_witness:
  "noSharedDestination [ruleA, ruleB] \<and>
   noSharedDestination (mergeRule [ruleA, ruleB] ''b'') \<and>
   destinationRefs (mergeRule [ruleA, ruleB] ''b'') = [''arn:aws:s3:::a'', ''arn:aws:s3:::b'']"
  using merge_keeps_destinations_distinct [where svc = twoRules and lg = "[]" and s3client = "''us-east-1''"
      and srcBucket = "''src''" and dstBucket = "''b''" and roleArn = "''arn:aws:iam::1:role/r''"
      and existingRules = "[ruleA, ruleB]"]
  by (simp add: twoRules_def calm_def ruleA_def ruleB_def noSharedDestination_def
      destinationRef_def mergeRule_def sameDestination_def installedRule_def word_sless_alt)

text \<open>
  C3. When no rule read from the bucket targets the requested destination (also when
  there is no rule at all), the rules stored are the rules read, unchanged and in their
  order, followed by one new rule. Its priority is \<open>maxPriority + 1\<close> in \<open>int64\<close>
  arithmetic, where \<open>maxPriority\<close> is the specification's maximum; this is the integer
  \<open>maxPriority + 1\<close> whenever \<open>maxPriority\<close> is below the largest \<open>int64\<close>.
\<close>

theorem new_destination_is_appended:
  "fetchedRules (GetBucketReplication svc (lg @ [GetBucketReplicationCall s3client srcBucket])) =
     existingRules \<and>
   (\<forall>r \<in> set existingRules. destinationRef r \<noteq> Some (''arn:aws:s3:::'' @ dstBucket)) \<longrightarrow>
     snd (putReplicationConfiguration svc s3client srcBucket dstBucket roleArn lg) =
       lg @ [GetBucketReplicationCall s3client srcBucket,
             PutBucketReplicationCall s3client srcBucket
               \<lparr>Role = Some roleArn,
                Rules = existingRules @
                  [\<lparr>ID = Some (''replicate-to-'' @ dstBucket), Status = Some ''Enabled'',
                    Priority = Some (maxPriorityLoop existingRules 0 + 1),
                    Filter = Some \<lparr>Prefix = Some []\<rparr>,
                    Destination = Some \<lparr>Bucket = Some (''arn:aws:s3:::'' @ dstBucket)\<rparr>,
                    DeleteMarkerReplication = Some \<lparr>MarkerStatus = Some ''Disabled''\<rparr>\<rparr>]\<rparr>] \<and>
     sint (maxPriorityLoop existingRules 0) = specMaxPriority existingRules \<and>
     (specMaxPriority existingRules < 2 ^ 63 - 1 \<longrightarrow>
        sint (maxPriorityLoop existingRules 0 + 1) = specMaxPriority existingRules + 1)"
proof (intro impI, elim conjE)
  let ?d = "\<lparr>Bucket = Some (''arn:aws:s3:::'' @ dstBucket)\<rparr>"
  assume f: "fetchedRules (GetBucketReplication svc
       (lg @ [GetBucketReplicationCall s3client srcBucket])) = existingRules"
    and n: "\<forall>r \<in> set existingRules. destinationRef r \<noteq> Some (''arn:aws:s3:::'' @ dstBucket)"
  have "\<forall>r \<in> set existingRules. \<not> sameDestination r ?d"
    using n by (simp add: sameDestination_iff)
  then have "updateLoop existingRules ?d (''replicate-to-'' @ dstBucket)
       (maxPriorityLoop existingRules 0) = (existingRules, False)"
    by (rule updateLoop_no_match)
  then have m: "mergeRule existingRules dstBucket =
      existingRules @ [installedRule (''replicate-to-'' @ dstBucket)
         (Some (maxPriorityLoop existingRules 0 + 1)) ?d]"
    by (simp add: mergeRule_def Let_def)
  have s: "sint (maxPriorityLoop existingRules 0) = specMaxPriority existingRules"
    by (rule maxPriorityLoop_spec)
  have o: "specMaxPriority existingRules < 2 ^ 63 - 1 \<longrightarrow>
        sint (maxPriorityLoop existingRules 0 + 1) = specMaxPriority existingRules + 1"
    using sint_succ [of "maxPriorityLoop existingRules 0"] s by simp
  show "snd (putReplicationConfiguration svc s3client srcBucket dstBucket roleArn lg) =
       lg @ [GetBucketReplicationCall s3client srcBucket,
             PutBucketReplicationCall s3client srcBucket
               \<lparr>Role = Some roleArn,
                Rules = existingRules @
                  [\<lparr>ID = Some (''replicate-to-'' @ dstBucket), Status = Some ''Enabled'',
                    Priority = Some (maxPriorityLoop existingRules 0 + 1),
                    Filter = Some \<lparr>Prefix = Some []\<rparr>,
                    Destination = Some \<lparr>Bucket = Some (''arn:aws:s3:::'' @ dstBucket)\<rparr>,
                    DeleteMarkerReplication = Some \<lparr>MarkerStatus = Some ''Disabled''\<rparr>\<rparr>]\<rparr>] \<and>
     sint (maxPriorityLoop existingRules 0) = specMaxPriority existingRules \<and>
     (specMaxPriority existingRules < 2 ^ 63 - 1 \<longrightarrow>
        sint (maxPriorityLoop existingRules 0 + 1) = specMaxPriority existingRules + 1)"
    using s o f m putReplicationConfiguration_log [of svc s3client srcBucket dstBucket roleArn lg]
    by (simp add: installedRule_def)
qed

theorem new_destination_is_appended_witness:
  "snd (putReplicationConfiguration twoRules ''us-east-1'' ''src'' ''c'' ''arn:aws:iam::1:role/r'' []) =
     [GetBucketReplicationCall ''us-east-1'' ''src'',
      PutBucketReplicationCall ''us-east-1'' ''src''
        \<lparr>Role = Some ''arn:aws:iam::1:role/r'',
         Rules = [ruleA, ruleB,
           \<lparr>ID = Some ''replicate-to-c'', Status = Some ''Enabled'', Priority = Some 3,
            Filter = Some \<lparr>Prefix = Some []\<rparr>,
            Destination = Some \<lparr>Bucket = Some ''arn:aws:s3:::c''\<rparr>,
            DeleteMarkerReplication = Some \<lparr>MarkerStatus = Some ''Disabled''\<rparr>\<rparr>]\<rparr>] \<and>
   snd (putReplicationConfiguration calm ''us-east-1'' ''src'' ''c'' ''arn:aws:iam::1:role/r'' []) =
     [GetBucketReplicationCall ''us-east-1'' ''src'',
      PutBucketReplicationCall ''us-east-1'' ''src''
        \<lparr>Role = Some ''arn:aws:iam::1:role/r'',
         Rules = [
           \<lparr>ID = Some ''replicate-to-c'', Status = Some ''Enabled'', Priority = Some 1,
            Filter = Some \<lparr>Prefix = Some []\<rparr>,
            Destination = Some \<lparr>Bucket = Some ''arn:aws:s3:::c''\<rparr>,
            DeleteMarkerReplication = Some \<lparr>MarkerStatus = Some ''Disabled''\<rparr>\<rparr>]\<rparr>] \<and>
   specMaxPriority [ruleA, ruleB] = 2"
  using new_destination_is_appended [where svc = twoRules and lg = "[]" and s3client = "''us-east-1''"
      and srcBucket = "''src''" and dstBucket = "''c''" and roleArn = "''arn:aws:iam::1:role/r''"
      and existingRules = "[ruleA, ruleB]"]
    new_destination_is_appended [where svc = calm and lg = "[]" and s3client = "''us-east-1''"
      and srcBucket = "''src''" and dstBucket = "''c''" and roleArn = "''arn:aws:iam::1:role/r''"
      and existingRules = "[]"]
  by (simp add: twoRules_def calm_def ruleA_def ruleB_def destinationRef_def
      specMaxPriority_def priorityOrZero_def word_sless_alt)

text \<open>
  C4. When rule \<open>i\<close> is the first rule read from the bucket that targets the requested
  destination, the rules stored are the rules read with slot \<open>i\<close> overwritten: the id is
  \<open>replicate-to-\<close> followed by the destination bucket, the status \<open>Enabled\<close>, the prefix
  empty, the delete marker replication \<open>Disabled\<close>, and the priority that of the rule
  replaced when it had one, \<open>maxPriority + 1\<close> (as in C3) otherwise. Every other slot
  keeps its rule.
\<close>

theorem known_destination_is_replaced_in_place:
  "fetchedRules (GetBucketReplication svc (lg @ [GetBucketReplicationCall s3client srcBucket])) =
     existingRules \<and>
   i < length existingRules \<and>
   destinationRef (existingRules ! i) = Some (''arn:aws:s3:::'' @ dstBucket) \<and>
   (\<forall>j < i. destinationRef (existingRules ! j) \<noteq> Some (''arn:aws:s3:::'' @ dstBucket)) \<longrightarrow>
     snd (putReplicationConfiguration svc s3client srcBucket dstBucket roleArn lg) =
       lg @ [GetBucketReplicationCall s3client srcBucket,
             PutBucketReplicationCall s3client srcBucket
               \<lparr>Role = Some roleArn,
                Rules = existingRules
                  [i := \<lparr>ID = Some (''replicate-to-'' @ dstBucket), Status = Some ''Enabled'',
                    Priority =
                      (case Priority (existingRules ! i) of
                         Some p \<Rightarrow> Some p
                       | None \<Rightarrow> Some (maxPriorityLoop existingRules 0 + 1)),
                    Filter = Some \<lparr>Prefix = Some []\<rparr>,
                    Destination = Some \<lparr>Bucket = Some (''arn:aws:s3:::'' @ dstBucket)\<rparr>,
                    DeleteMarkerReplication = Some \<lparr>MarkerStatus = Some ''Disabled''\<rparr>\<rparr>]\<rparr>] \<and>
     sint (maxPriorityLoop existingRules 0) = specMaxPriority existingRules \<and>
     (specMaxPriority existingRules < 2 ^ 63 - 1 \<longrightarrow>
        sint (maxPriorityLoop existingRules 0 + 1) = specMaxPriority existingRules + 1)"
proof (intro impI, elim conjE)
  let ?d = "\<lparr>Bucket = Some (''arn:aws:s3:::'' @ dstBucket)\<rparr>"
  assume f: "fetchedRules (GetBucketReplication svc
       (lg @ [GetBucketReplicationCall s3client srcBucket])) = existingRules"
    and i: "i < length existingRules"
    and t: "destinationRef (existingRules ! i) = Some (''arn:aws:s3:::'' @ dstBucket)"
    and n: "\<forall>j < i. destinationRef (existingRules ! j) \<noteq> Some (''arn:aws:s3:::'' @ dstBucket)"
  have "updateLoop existingRules ?d (''replicate-to-'' @ dstBucket)
       (maxPriorityLoop existingRules 0) =
     (existingRules[i := installedRule (''replicate-to-'' @ dstBucket)
        (case Priority (existingRules ! i) of
           None \<Rightarrow> Some (maxPriorityLoop existingRules 0 + 1) | Some p \<Rightarrow> Some p) ?d], True)"
    using i t n by (intro updateLoop_match) (simp_all add: sameDestination_iff)
  then have m: "mergeRule existingRules dstBucket =
     existingRules[i := installedRule (''replicate-to-'' @ dstBucket)
        (case Priority (existingRules ! i) of
           None \<Rightarrow> Some (maxPriorityLoop existingRules 0 + 1) | Some p \<Rightarrow> Some p) ?d]"
    by (simp add: mergeRule_def Let_def)
  have c: "(case Priority (existingRules ! i) of
           None \<Rightarrow> Some (maxPriorityLoop existingRules 0 + 1) | Some p \<Rightarrow> Some p) =
        (case Priority (existingRules ! i) of
           Some p \<Rightarrow> Some p | None \<Rightarrow> Some (maxPriorityLoop existingRules 0 + 1))"
    by (simp split: option.splits)
  have s: "sint (maxPriorityLoop existingRules 0) = specMaxPriority existingRules"
    by (rule maxPriorityLoop_spec)
  have o: "specMaxPriority existingRules < 2 ^ 63 - 1 \<longrightarrow>
        sint (maxPriorityLoop existingRules 0 + 1) = specMaxPriority existingRules + 1"
    using sint_succ [of "maxPriorityLoop existingRules 0"] s by simp
  show "snd (putReplicationConfiguration svc s3client srcBucket dstBucket roleArn lg) =
       lg @ [GetBucketReplicationCall s3client srcBucket,
             PutBucketReplicationCall s3client srcBucket
               \<lparr>Role = Some roleArn,
                Rules = existingRules
                  [i := \<lparr>ID = Some (''replicate-to-'' @ dstBucket), Status = Some ''Enabled'',
                    Priority =
                      (case Priority (existingRules ! i) of
                         Some p \<Rightarrow> Some p
                       | None \<Rightarrow> Some (maxPriorityLoop existingRules 0 + 1)),
                    Filter = Some \<lparr>Prefix = Some []\<rparr>,
                    Destination = Some \<lparr>Bucket = Some (''arn:aws:s3:::'' @ dstBucket)\<rparr>,
                    DeleteMarkerReplication = Some \<lparr>MarkerStatus = Some ''Disabled''\<rparr>\<rparr>]\<rparr>] \<and>
     sint (maxPriorityLoop existingRules 0) = specMaxPriority existingRules \<and>
     (specMaxPriority existingRules < 2 ^ 63 - 1 \<longrightarrow>
        sint (maxPriorityLoop existingRules 0 + 1) = specMaxPriority existingRules + 1)"
    using s o f m c putReplicationConfiguration_log [of svc s3client srcBucket dstBucket roleArn lg]
    by (simp add: installedRule_def)
qed

theorem known_destination_is_replaced_in_place_witness:
  "snd (putReplicationConfiguration twoRules ''us-east-1'' ''src'' ''b'' ''arn:aws:iam::1:role/r'' []) =
     [GetBucketReplicationCall ''us-east-1'' ''src'',
      PutBucketReplicationCall ''us-east-1'' ''src''
        \<lparr>Role = Some ''arn:aws:iam::1:role/r'',
         Rules = [ruleA,
           \<lparr>ID = Some ''replicate-to-b'', Status = Some ''Enabled'', Priority = Some 2,
            Filter = Some \<lparr>Prefix = Some []\<rparr>,
            Destination = Some \<lparr>Bucket = Some ''arn:aws:s3:::b''\<rparr>,
            DeleteMarkerReplication = Some \<lparr>MarkerStatus = Some ''Disabled''\<rparr>\<rparr>]\<rparr>] \<and>
   snd (putReplicationConfiguration priorityMissing ''us-east-1'' ''src'' ''b'' ''arn:aws:iam::1:role/r'' []) =
     [GetBucketReplicationCall ''us-east-1'' ''src'',
      PutBucketReplicationCall ''us-east-1'' ''src''
        \<lparr>Role = Some ''arn:aws:iam::1:role/r'',
         Rules = [ruleA,
           \<lparr>ID = Some ''replicate-to-b'', Status = Some ''Enabled'', Priority = Some 2,
            Filter = Some \<lparr>Prefix = Some []\<rparr>,
            Destination = Some \<lparr>Bucket = Some ''arn:aws:s3:::b''\<rparr>,
            DeleteMarkerReplication = Some \<lparr>MarkerStatus = Some ''Disabled''\<rparr>\<rparr>]\<rparr>]"
  using known_destination_is_replaced_in_place [where svc = twoRules and lg = "[]" and s3client = "''us-east-1''"
      and srcBucket = "''src''" and dstBucket = "''b''" and roleArn = "''arn:aws:iam::1:role/r''"
      and existingRules = "[ruleA, ruleB]" and i = 1]
    known_destination_is_replaced_in_place [where svc = priorityMissing and lg = "[]" and s3client = "''us-east-1''"
      and srcBucket = "''src''" and dstBucket = "''b''" and roleArn = "''arn:aws:iam::1:role/r''"
      and existingRules = "[ruleA, ruleB\<lparr>Priority := None\<rparr>]" and i = 1]
  by (simp add: twoRules_def priorityMissing_def calm_def ruleA_def ruleB_def destinationRef_def
      specMaxPriority_def priorityOrZero_def word_sless_alt)

section \<open>The bounded poll\<close>









section \<open>The region of a destination\<close>

lemma region_used:
  assumes "detectRegion srcRegion
             (GetBucketLocation svc (lg @ [GetBucketLocationCall srcRegion dstBucket])) = region"
  shows "checkDestination svc srcRegion key dstBucket lg =
           pollLoop svc region dstBucket key 0 (lg @ [GetBucketLocationCall srcRegion dstBucket]) \<and>
         listDestination svc srcRegion srcCount dstBucket lg =
           (case listObjects svc region dstBucket (lg @ [GetBucketLocationCall srcRegion dstBucket]) of
              (Inl err, lg2) \<Rightarrow> (Inl err, lg2)
            | (Inr dstObjects, lg2) \<Rightarrow>
                (Inr (dstBucket, region, length dstObjects, length dstObjects \<ge> srcCount), lg2))"
  using assms
  by (auto simp add: checkDestination_def listDestination_def Let_def split: prod.splits sum.splits)

text \<open>
  The alias \<open>EU\<close> is replaced by \<open>eu-west-1\<close>: the poll and the listing of such a
  destination go through a client of that region.
\<close>

lemma EU_alias_is_normalised:
  assumes "GetBucketLocation svc (lg @ [GetBucketLocationCall srcRegion dstBucket]) =
             Inr (Some ''EU'')"
  shows "checkDestination svc srcRegion key dstBucket lg =
           pollLoop svc ''eu-west-1'' dstBucket key 0 (lg @ [GetBucketLocationCall srcRegion dstBucket]) \<and>
         listDestination svc srcRegion srcCount dstBucket lg =
           (case listObjects svc ''eu-west-1'' dstBucket (lg @ [GetBucketLocationCall srcRegion dstBucket]) of
              (Inl err, lg2) \<Rightarrow> (Inl err, lg2)
            | (Inr dstObjects, lg2) \<Rightarrow>
                (Inr (dstBucket, ''eu-west-1'', length dstObjects, length dstObjects \<ge> srcCount), lg2))"
proof -
  have "detectRegion srcRegion
          (GetBucketLocation svc (lg @ [GetBucketLocationCall srcRegion dstBucket])) = ''eu-west-1''"
    using assms by (simp add: detectRegion_def)
  then show ?thesis by (rule region_used)
qed

text \<open>
  C8 does not hold for the original default region. The empty location constraint of a
  bucket in \<open>us-east-1\<close> reaches the verifier as a nil \<open>LocationConstraint\<close>, and the
  replacement of \<open>""\<close> by \<open>us-east-1\<close> stands inside the guard
  \<open>locOut.LocationConstraint != nil\<close>: for the destination \<open>old-us\<close> of a source bucket in
  \<open>ap-south-1\<close> the guard is false, the detected region stays \<open>ap-south-1\<close>, and the
  poll and the listing go through a client of \<open>ap-south-1\<close>, not of \<open>us-east-1\<close>.
\<close>

theorem empty_location_constraint_keeps_source_region:
  "GetBucketLocation legacyLocations [GetBucketLocationCall ''ap-south-1'' ''old-us''] = Inr None \<and>
   detectRegion ''ap-south-1''
     (GetBucketLocation legacyLocations [GetBucketLocationCall ''ap-south-1'' ''old-us'']) =
     ''ap-south-1'' \<and>
   checkDestination legacyLocations ''ap-south-1'' ''p.txt'' ''old-us'' [] =
     (True, [GetBucketLocationCall ''ap-south-1'' ''old-us'', Sleep 10,
             HeadObjectCall ''ap-south-1'' ''old-us'' ''p.txt'']) \<and>
   listDestination legacyLocations ''ap-south-1'' 0 ''old-us'' [] =
     (Inr (''old-us'', ''ap-south-1'', 0, True),
      [GetBucketLocationCall ''ap-south-1'' ''old-us'',
       ListObjectsV2PagesCall ''ap-south-1'' ''old-us''])"
  by (simp add: legacyLocations_def calm_def detectRegion_def checkDestination_def
      listDestination_def listObjects_def pollLoop.simps Let_def)

text \<open>
  C9. When the location lookup of a destination fails, or succeeds without a location
  constraint, the source region stands for the destination's: the poll and the listing go
  through a client of the source region, and what they return does not mention the
  lookup's error (the listing fails only with the error of its own call).
\<close>

theorem failed_lookup_falls_back_to_source_region:
  "((\<exists>err. GetBucketLocation svc (lg @ [GetBucketLocationCall srcRegion dstBucket]) = Inl err) \<or>
    GetBucketLocation svc (lg @ [GetBucketLocationCall srcRegion dstBucket]) = Inr None \<longrightarrow>
      checkDestination svc srcRegion key dstBucket lg =
        pollLoop svc srcRegion dstBucket key 0 (lg @ [GetBucketLocationCall srcRegion dstBucket]) \<and>
      listDestination svc srcRegion srcCount dstBucket lg =
        (case listObjects svc srcRegion dstBucket (lg @ [GetBucketLocationCall srcRegion dstBucket]) of
           (Inl err, lg2) \<Rightarrow> (Inl err, lg2)
         | (Inr dstObjects, lg2) \<Rightarrow>
             (Inr (dstBucket, srcRegion, length dstObjects, length dstObjects \<ge> srcCount), lg2)))"
proof -
  let ?loc = "GetBucketLocation svc (lg @ [GetBucketLocationCall srcRegion dstBucket])"
  have "(\<exists>err. ?loc = Inl err) \<or> ?loc = Inr None \<Longrightarrow> detectRegion srcRegion ?loc = srcRegion"
    by (auto simp add: detectRegion_def)
  then show ?thesis
    using region_used [where svc = svc and srcRegion = srcRegion and lg = lg and dstBucket = dstBucket
        and region = srcRegion and key = key and srcCount = srcCount]
    by blast
qed

theorem failed_lookup_falls_back_to_source_region_witness:
  "checkDestination lookupDenied ''eu-west-3'' ''p.txt'' ''dst'' [] =
     (True, [GetBucketLocationCall ''eu-west-3'' ''dst'', Sleep 10,
             HeadObjectCall ''eu-west-3'' ''dst'' ''p.txt'']) \<and>
   listDestination lookupDenied ''eu-west-3'' 0 ''dst'' [] =
     (Inr (''dst'', ''eu-west-3'', 0, True),
      [GetBucketLocationCall ''eu-west-3'' ''dst'', ListObjectsV2PagesCall ''eu-west-3'' ''dst'']) \<and>
   checkDestination calm ''eu-west-3'' ''p.txt'' ''dst'' [] =
     (True, [GetBucketLocationCall ''eu-west-3'' ''dst'', Sleep 10,
             HeadObjectCall ''eu-west-3'' ''dst'' ''p.txt''])"
  using failed_lookup_falls_back_to_source_region [where svc = lookupDenied
      and srcRegion = "''eu-west-3''" and key = "''p.txt''" and dstBucket = "''dst''"
      and lg = "[]" and srcCount = 0]
    failed_lookup_falls_back_to_source_region [where svc = calm
      and srcRegion = "''eu-west-3''" and key = "''p.txt''" and dstBucket = "''dst''"
      and lg = "[]" and srcCount = 0]
  by (simp add: lookupDenied_def calm_def pollLoop.simps listObjects_def)

end
